theory Spec2Isabelle
  imports Main "HOL-Library.Sublist"
begin

section \<open>Entities of the application state\<close>

text \<open>
  Modelled from the spec: the entity types \<^verbatim>\<open>Item\<close>, \<^verbatim>\<open>User\<close>, \<^verbatim>\<open>LogEntry\<close>,
  \<^verbatim>\<open>Notification\<close>, \<^verbatim>\<open>Suggestion\<close>, \<^verbatim>\<open>Comment\<close> and \<^verbatim>\<open>State\<close>, which every source file imports
  from \<^verbatim>\<open>../types\<close>, a file that is not among the sources. Each record below lists the
  fields the source reads or writes (\<^verbatim>\<open>i.id\<close>, \<^verbatim>\<open>item.availableQuantity\<close>, \<^verbatim>\<open>u.isAdmin\<close>,
  \<^verbatim>\<open>n.read\<close>, \<^verbatim>\<open>log.itemId\<close>, ...) and the fields that section 3 of the specification gives
  the entity. An identity is a string, compared with \<^verbatim>\<open>===\<close>. A quantity is a JavaScript
  number, here an \<^typ>\<open>int\<close>: nothing in the client restricts its sign.
\<close>

text \<open>Modelled from the spec: the enumeration \<^verbatim>\<open>UserStatus\<close> of \<^verbatim>\<open>../types\<close>
  (the source names its members \<^verbatim>\<open>APPROVED\<close> and \<^verbatim>\<open>PENDING\<close>).\<close>

datatype UserStatus = PENDING | APPROVED | DENIED

text \<open>Modelled from the spec: the enumerations \<^verbatim>\<open>LogAction\<close> and \<^verbatim>\<open>LogStatus\<close> of
  \<^verbatim>\<open>../types\<close>.\<close>

datatype LogAction = BORROW | RETURN

datatype LogStatus = LOG_PENDING | LOG_APPROVED | LOG_DENIED | LOG_RETURNED

text \<open>Modelled from the spec: the enumerations \<^verbatim>\<open>SuggestionStatus\<close> and
  \<^verbatim>\<open>SuggestionType\<close> of \<^verbatim>\<open>../types\<close>.\<close>

datatype SuggestionStatus = SUGGESTION_PENDING | SUGGESTION_APPROVED | SUGGESTION_DENIED

datatype SuggestionType = ITEM | FEATURE

record Item =
  item_id :: string
  item_name :: string
  item_category :: string
  totalQuantity :: int
  availableQuantity :: int

text \<open>
  A user as it arrives from the server is a JSON object. The TypeScript types
  \<^verbatim>\<open>User\<close> and \<^verbatim>\<open>SecureUser = Omit<User, 'password'>\<close> are erased at run time, so one
  record stands for both, and the credential property is optional: \<^term>\<open>None\<close> is an
  object without the property \<^verbatim>\<open>password\<close>.
\<close>

record User =
  user_id :: string
  fullName :: string
  role :: string
  status :: UserStatus
  isAdmin :: bool
  password :: "string option"

record LogEntry =
  log_id :: string
  log_itemId :: string
  log_userId :: string
  action :: LogAction
  quantity :: int
  log_status :: LogStatus
  adminNotes :: "string option"

record Notification =
  notification_id :: string
  notification_type :: string
  read :: bool

record Suggestion =
  suggestion_id :: string
  suggestion_type :: SuggestionType
  suggestion_status :: SuggestionStatus
  suggestion_category :: "string option"
  description :: string

record Comment =
  comment_id :: string
  comment_suggestionId :: string
  comment_userId :: string
  comment_text :: string

text \<open>\<^verbatim>\<open>State\<close>: the snapshot, six arrays.\<close>

record State =
  items :: "Item list"
  users :: "User list"
  logs :: "LogEntry list"
  notifications :: "Notification list"
  suggestions :: "Suggestion list"
  comments :: "Comment list"

section \<open>JavaScript errors\<close>

text \<open>
  A thrown value is an \<^verbatim>\<open>Error\<close> object; the source tells a \<^verbatim>\<open>TypeError\<close> from the rest
  (\<^verbatim>\<open>error instanceof TypeError\<close>) and reads the message. \<^verbatim>\<open>JSON.parse\<close> and
  \<^verbatim>\<open>response.json()\<close> throw a \<^verbatim>\<open>SyntaxError\<close>.
\<close>

datatype js_error = Error string | TypeError string | SyntaxError string

section \<open>The state store (InventoryContext.tsx)\<close>

datatype SyncStatus = Synced | Syncing | SyncError

text \<open>
  The provider's five \<^verbatim>\<open>useState\<close> cells. \<^verbatim>\<open>lastSynced\<close> is a \<^verbatim>\<open>Date | null\<close>; a date is
  a number of milliseconds. The last field is not a cell of the provider: an exception
  thrown by a state updater function is not thrown at the \<^verbatim>\<open>setState\<close> call but
  by React while it renders the provider, outside every \<^verbatim>\<open>try\<close> of the source, and the
  state it was computing is never committed; \<open>renderError\<close> records it.
\<close>

record Store =
  state :: State
  isLoading :: bool
  connectionError :: "string option"
  syncStatus :: SyncStatus
  lastSynced :: "nat option"
  renderError :: "js_error option"

text \<open>
  A call of one of the state setters. Every mutation operation calls \<^verbatim>\<open>setState\<close> with
  an updater function \<^verbatim>\<open>prev => ...\<close>, which may throw.
\<close>

datatype Setter =
    SetState "State \<Rightarrow> js_error + State"
  | SetSyncStatus SyncStatus
  | SetLastSynced nat

fun apply_setter :: "Setter \<Rightarrow> Store \<Rightarrow> Store" where
  "apply_setter (SetState updater) st =
     (case updater (state st) of
        Inr s \<Rightarrow> st\<lparr>state := s\<rparr>
      | Inl e \<Rightarrow> st\<lparr>renderError := Some e\<rparr>)"
| "apply_setter (SetSyncStatus s) st = st\<lparr>syncStatus := s\<rparr>"
| "apply_setter (SetLastSynced d) st = st\<lparr>lastSynced := Some d\<rparr>"

text \<open>
  The stores an observer can see while a list of setter calls takes effect, one after
  each call, in order. React may batch several calls into one render; an observer then
  sees a subsequence of these stores, and never anything else.
\<close>

fun trace :: "Setter list \<Rightarrow> Store \<Rightarrow> Store list" where
  "trace [] st = []"
| "trace (c # cs) st = apply_setter c st # trace cs (apply_setter c st)"

text \<open>
  \<^verbatim>\<open>handleApiCall(apiCall, updateState)\<close>. The awaited API call either rejects with an
  error or resolves with a result. \<^verbatim>\<open>updateState(result)\<close> makes setter calls and may
  then throw; what it throws is caught by the same \<^verbatim>\<open>catch\<close> as a rejected call.
  \<open>now\<close> is the value of \<^verbatim>\<open>new Date()\<close>. The result is the list of setter calls made
  and how the returned promise settles (\<open>Inl\<close>: rejected with the error re-thrown).
\<close>

definition handleApiCall ::
  "nat \<Rightarrow> js_error + 'a \<Rightarrow> ('a \<Rightarrow> Setter list \<times> js_error option)
     \<Rightarrow> Setter list \<times> (js_error + unit)" where
  "handleApiCall now apiCall updateState =
     (case apiCall of
        Inl error \<Rightarrow> ([SetSyncStatus Syncing, SetSyncStatus SyncError], Inl error)
      | Inr result \<Rightarrow>
          (case updateState result of
             (sets, Some error) \<Rightarrow>
               (SetSyncStatus Syncing # sets @ [SetSyncStatus SyncError], Inl error)
           | (sets, None) \<Rightarrow>
               (SetSyncStatus Syncing # sets @ [SetSyncStatus Synced, SetLastSynced now],
                Inr ())))"

section \<open>The notification dispatch (emailService)\<close>

text \<open>
  The three functions imported from \<^verbatim>\<open>../services/emailService\<close> are not among the
  sources, so they are parameters of the model. The store calls them without \<^verbatim>\<open>await\<close>
  and without a \<^verbatim>\<open>try\<close> of its own, so for the store a call has one of three outcomes: it
  returns; it returns a promise that is rejected later (nothing awaits it); or it throws
  to its caller.
\<close>

datatype DispatchOutcome = Returned | RejectedLater js_error | Thrown js_error

fun thrown :: "DispatchOutcome \<Rightarrow> js_error option" where
  "thrown Returned = None"
| "thrown (RejectedLater e) = None"
| "thrown (Thrown e) = Some e"

record EmailService =
  sendNewUserAdminNotification :: "User \<Rightarrow> User list \<Rightarrow> DispatchOutcome"
  sendAccountApprovedNotification :: "User \<Rightarrow> DispatchOutcome"
  sendAccountDeniedNotification :: "User \<Rightarrow> DispatchOutcome"

section \<open>The mutation operations of the store\<close>

text \<open>
  One constructor for each mutation operation of \<^verbatim>\<open>InventoryContextType\<close>, carrying how
  the operation's API call settles: \<open>Inl\<close> the error it rejects with, \<open>Inr\<close> the value
  it resolves with (a composite result is a tuple in the order of the source's
  destructuring pattern).
\<close>

datatype Mutation =
    AddItem "js_error + Item"
  | EditItem "js_error + Item"
  | DeleteItem "js_error + string"
  | CreateUser "js_error + User \<times> Notification"
  | EditUser "js_error + User"
  | DeleteUser "js_error + string"
  | ApproveUser "js_error + User"
  | DenyUser "js_error + User"
  | RequestBorrowItem "js_error + LogEntry \<times> Notification"
  | ApproveBorrowRequest "js_error + LogEntry \<times> Item"
  | DenyBorrowRequest "js_error + LogEntry"
  | ReturnItem "js_error + LogEntry \<times> LogEntry \<times> Item"
  | RequestItemReturn "js_error + LogEntry \<times> Notification"
  | MarkNotificationsAsRead "js_error + string list"
  | AddSuggestion "js_error + Suggestion"
  | ApproveItemSuggestion "js_error + Suggestion \<times> Item"
  | ApproveFeatureSuggestion "js_error + Suggestion"
  | DenySuggestion "js_error + Suggestion \<times> Comment"
  | ImportItems "js_error + Item list"
  | AddComment "js_error + Comment"

text \<open>The patches, each the body of the updater function passed to \<^verbatim>\<open>setState\<close>.\<close>

definition replaceItem :: "Item \<Rightarrow> Item list \<Rightarrow> Item list" where
  "replaceItem updatedItem xs = map (\<lambda>i. if item_id i = item_id updatedItem then updatedItem else i) xs"

definition replaceUser :: "User \<Rightarrow> User list \<Rightarrow> User list" where
  "replaceUser updatedUser xs = map (\<lambda>u. if user_id u = user_id updatedUser then updatedUser else u) xs"

definition replaceLog :: "LogEntry \<Rightarrow> LogEntry list \<Rightarrow> LogEntry list" where
  "replaceLog updatedLog xs = map (\<lambda>l. if log_id l = log_id updatedLog then updatedLog else l) xs"

definition replaceSuggestion :: "Suggestion \<Rightarrow> Suggestion list \<Rightarrow> Suggestion list" where
  "replaceSuggestion updatedSuggestion xs =
     map (\<lambda>s. if suggestion_id s = suggestion_id updatedSuggestion then updatedSuggestion else s) xs"

definition addItem_patch :: "Item \<Rightarrow> State \<Rightarrow> State" where
  "addItem_patch newItem prev = prev\<lparr>items := items prev @ [newItem]\<rparr>"

definition editItem_patch :: "Item \<Rightarrow> State \<Rightarrow> State" where
  "editItem_patch updatedItem prev = prev\<lparr>items := replaceItem updatedItem (items prev)\<rparr>"

definition deleteItem_patch :: "string \<Rightarrow> State \<Rightarrow> State" where
  "deleteItem_patch deletedItemId prev =
     prev\<lparr>items := filter (\<lambda>i. item_id i \<noteq> deletedItemId) (items prev)\<rparr>"

text \<open>
  The updater of \<^verbatim>\<open>createUser\<close> calls the dispatch itself, between computing the
  administrators and returning the new state: when the dispatch throws, the updater
  throws.
\<close>

definition createUser_updater ::
  "EmailService \<Rightarrow> User \<Rightarrow> Notification \<Rightarrow> State \<Rightarrow> js_error + State" where
  "createUser_updater mail newUser newNotification prev =
     (let updatedUsers = users prev @ [newUser];
          admins = filter isAdmin updatedUsers
      in case thrown (sendNewUserAdminNotification mail newUser admins) of
           Some e \<Rightarrow> Inl e
         | None \<Rightarrow>
             Inr (prev\<lparr>users := updatedUsers,
                       notifications := newNotification # notifications prev\<rparr>))"

definition editUser_patch :: "User \<Rightarrow> State \<Rightarrow> State" where
  "editUser_patch updatedUser prev = prev\<lparr>users := replaceUser updatedUser (users prev)\<rparr>"

definition deleteUser_patch :: "string \<Rightarrow> State \<Rightarrow> State" where
  "deleteUser_patch deletedUserId prev =
     prev\<lparr>users := filter (\<lambda>u. user_id u \<noteq> deletedUserId) (users prev)\<rparr>"

definition requestBorrowItem_patch :: "LogEntry \<Rightarrow> Notification \<Rightarrow> State \<Rightarrow> State" where
  "requestBorrowItem_patch newLog newNotification prev =
     prev\<lparr>logs := newLog # logs prev, notifications := newNotification # notifications prev\<rparr>"

definition approveBorrowRequest_patch :: "LogEntry \<Rightarrow> Item \<Rightarrow> State \<Rightarrow> State" where
  "approveBorrowRequest_patch updatedLog updatedItem prev =
     prev\<lparr>logs := replaceLog updatedLog (logs prev),
          items := replaceItem updatedItem (items prev)\<rparr>"

definition denyBorrowRequest_patch :: "LogEntry \<Rightarrow> State \<Rightarrow> State" where
  "denyBorrowRequest_patch updatedLog prev = prev\<lparr>logs := replaceLog updatedLog (logs prev)\<rparr>"

definition returnItem_patch :: "LogEntry \<Rightarrow> LogEntry \<Rightarrow> Item \<Rightarrow> State \<Rightarrow> State" where
  "returnItem_patch returnLog updatedBorrowLog updatedItem prev =
     prev\<lparr>logs := returnLog # replaceLog updatedBorrowLog (logs prev),
          items := replaceItem updatedItem (items prev)\<rparr>"

definition requestItemReturn_patch :: "LogEntry \<Rightarrow> Notification \<Rightarrow> State \<Rightarrow> State" where
  "requestItemReturn_patch updatedLog newNotification prev =
     prev\<lparr>logs := replaceLog updatedLog (logs prev),
          notifications := newNotification # notifications prev\<rparr>"

definition markNotificationsAsRead_patch :: "string list \<Rightarrow> State \<Rightarrow> State" where
  "markNotificationsAsRead_patch readIds prev =
     prev\<lparr>notifications :=
            map (\<lambda>n. if notification_id n \<in> set readIds then n\<lparr>read := True\<rparr> else n)
              (notifications prev)\<rparr>"

definition addSuggestion_patch :: "Suggestion \<Rightarrow> State \<Rightarrow> State" where
  "addSuggestion_patch newSuggestion prev = prev\<lparr>suggestions := newSuggestion # suggestions prev\<rparr>"

definition approveItemSuggestion_patch :: "Suggestion \<Rightarrow> Item \<Rightarrow> State \<Rightarrow> State" where
  "approveItemSuggestion_patch updatedSuggestion newItem prev =
     prev\<lparr>suggestions := replaceSuggestion updatedSuggestion (suggestions prev),
          items := items prev @ [newItem]\<rparr>"

definition approveFeatureSuggestion_patch :: "Suggestion \<Rightarrow> State \<Rightarrow> State" where
  "approveFeatureSuggestion_patch updatedSuggestion prev =
     prev\<lparr>suggestions := replaceSuggestion updatedSuggestion (suggestions prev)\<rparr>"

definition denySuggestion_patch :: "Suggestion \<Rightarrow> Comment \<Rightarrow> State \<Rightarrow> State" where
  "denySuggestion_patch updatedSuggestion newComment prev =
     prev\<lparr>suggestions := replaceSuggestion updatedSuggestion (suggestions prev),
          comments := newComment # comments prev\<rparr>"

definition importItems_patch :: "Item list \<Rightarrow> State \<Rightarrow> State" where
  "importItems_patch newItems prev = prev\<lparr>items := items prev @ newItems\<rparr>"

definition addComment_patch :: "Comment \<Rightarrow> State \<Rightarrow> State" where
  "addComment_patch newComment prev = prev\<lparr>comments := newComment # comments prev\<rparr>"

text \<open>An \<^verbatim>\<open>updateState\<close> callback that makes one \<^verbatim>\<open>setState\<close> call and returns.\<close>

definition set_state :: "(State \<Rightarrow> State) \<Rightarrow> Setter list \<times> js_error option" where
  "set_state patch = ([SetState (\<lambda>prev. Inr (patch prev))], None)"

text \<open>
  Each operation is \<^verbatim>\<open>handleApiCall\<close> applied to its API call and its \<^verbatim>\<open>updateState\<close>
  callback. \<^verbatim>\<open>approveUser\<close> and \<^verbatim>\<open>denyUser\<close> call the dispatch in the callback, after
  \<^verbatim>\<open>setState\<close>: when it throws, the callback throws after that setter call.
\<close>

fun perform :: "nat \<Rightarrow> EmailService \<Rightarrow> Mutation \<Rightarrow> Setter list \<times> (js_error + unit)" where
  "perform now mail (AddItem r) = handleApiCall now r (\<lambda>newItem. set_state (addItem_patch newItem))"
| "perform now mail (EditItem r) =
     handleApiCall now r (\<lambda>updatedItem. set_state (editItem_patch updatedItem))"
| "perform now mail (DeleteItem r) =
     handleApiCall now r (\<lambda>deletedItemId. set_state (deleteItem_patch deletedItemId))"
| "perform now mail (CreateUser r) =
     handleApiCall now r (\<lambda>(newUser, newNotification).
       ([SetState (createUser_updater mail newUser newNotification)], None))"
| "perform now mail (EditUser r) =
     handleApiCall now r (\<lambda>updatedUser. set_state (editUser_patch updatedUser))"
| "perform now mail (DeleteUser r) =
     handleApiCall now r (\<lambda>deletedUserId. set_state (deleteUser_patch deletedUserId))"
| "perform now mail (ApproveUser r) =
     handleApiCall now r (\<lambda>approvedUser.
       (fst (set_state (editUser_patch approvedUser)),
        thrown (sendAccountApprovedNotification mail approvedUser)))"
| "perform now mail (DenyUser r) =
     handleApiCall now r (\<lambda>deniedUser.
       (fst (set_state (editUser_patch deniedUser)),
        thrown (sendAccountDeniedNotification mail deniedUser)))"
| "perform now mail (RequestBorrowItem r) =
     handleApiCall now r (\<lambda>(newLog, newNotification).
       set_state (requestBorrowItem_patch newLog newNotification))"
| "perform now mail (ApproveBorrowRequest r) =
     handleApiCall now r (\<lambda>(updatedLog, updatedItem).
       set_state (approveBorrowRequest_patch updatedLog updatedItem))"
| "perform now mail (DenyBorrowRequest r) =
     handleApiCall now r (\<lambda>updatedLog. set_state (denyBorrowRequest_patch updatedLog))"
| "perform now mail (ReturnItem r) =
     handleApiCall now r (\<lambda>(returnLog, updatedBorrowLog, updatedItem).
       set_state (returnItem_patch returnLog updatedBorrowLog updatedItem))"
| "perform now mail (RequestItemReturn r) =
     handleApiCall now r (\<lambda>(updatedLog, newNotification).
       set_state (requestItemReturn_patch updatedLog newNotification))"
| "perform now mail (MarkNotificationsAsRead r) =
     handleApiCall now r (\<lambda>readIds. set_state (markNotificationsAsRead_patch readIds))"
| "perform now mail (AddSuggestion r) =
     handleApiCall now r (\<lambda>newSuggestion. set_state (addSuggestion_patch newSuggestion))"
| "perform now mail (ApproveItemSuggestion r) =
     handleApiCall now r (\<lambda>(updatedSuggestion, newItem).
       set_state (approveItemSuggestion_patch updatedSuggestion newItem))"
| "perform now mail (ApproveFeatureSuggestion r) =
     handleApiCall now r (\<lambda>updatedSuggestion.
       set_state (approveFeatureSuggestion_patch updatedSuggestion))"
| "perform now mail (DenySuggestion r) =
     handleApiCall now r (\<lambda>(updatedSuggestion, newComment).
       set_state (denySuggestion_patch updatedSuggestion newComment))"
| "perform now mail (ImportItems r) =
     handleApiCall now r (\<lambda>newItems. set_state (importItems_patch newItems))"
| "perform now mail (AddComment r) =
     handleApiCall now r (\<lambda>newComment. set_state (addComment_patch newComment))"

text \<open>
  Running an operation on a store: the stores observed, in order, and how the
  operation's promise settles.
\<close>

definition mutate ::
  "nat \<Rightarrow> EmailService \<Rightarrow> Mutation \<Rightarrow> Store \<Rightarrow> Store list \<times> (js_error + unit)" where
  "mutate now mail m st = (trace (fst (perform now mail m)) st, snd (perform now mail m))"


section \<open>The API client (apiService.ts)\<close>

text \<open>A JSON value, as \<^verbatim>\<open>JSON.parse\<close> and \<^verbatim>\<open>response.json()\<close> return it. An object keeps
  its members in the order of the text.\<close>

datatype json =
    JNull
  | JBool bool
  | JNumber int
  | JString string
  | JArray "json list"
  | JObject "(string \<times> json) list"

text \<open>
  The property reads \<^verbatim>\<open>errorData.message\<close> and \<^verbatim>\<open>errorData.error\<close> on a value that is not
  \<^verbatim>\<open>null\<close>: the member of an object (the last one, when the text repeats a key), and
  \<^verbatim>\<open>undefined\<close> (\<^term>\<open>None\<close>) on an object without the key and on a boolean, a number, a
  string or an array, none of which has a property of either name.
\<close>

fun property :: "json \<Rightarrow> string \<Rightarrow> json option" where
  "property (JObject members) k = map_of (rev members) k"
| "property v k = None"

fun truthy :: "json \<Rightarrow> bool" where
  "truthy JNull = False"
| "truthy (JBool b) = b"
| "truthy (JNumber n) = (n \<noteq> 0)"
| "truthy (JString s) = (s \<noteq> [])"
| "truthy (JArray xs) = True"
| "truthy (JObject members) = True"

text \<open>\<^verbatim>\<open>a || b\<close>, where \<open>a\<close> may be \<^verbatim>\<open>undefined\<close>.\<close>

fun js_or :: "json option \<Rightarrow> json \<Rightarrow> json" where
  "js_or None b = b"
| "js_or (Some a) b = (if truthy a then a else b)"

text \<open>
  A \<^verbatim>\<open>Response\<close> of the Fetch API. Its body is a stream that can be read once:
  \<^verbatim>\<open>json()\<close> and \<^verbatim>\<open>text()\<close> both run the Fetch Standard's ``consume body'', which
  rejects with a \<^verbatim>\<open>TypeError\<close> when the body is not null and has been read before, and
  otherwise reads the stream to its end and marks it read (\<^verbatim>\<open>bodyUsed\<close>) before anything
  is parsed. A null body reads as the empty byte sequence and is never marked.
  The text of the \<^verbatim>\<open>TypeError\<close> depends on the browser.
\<close>

record Response =
  ok :: bool
  http_status :: nat
  body :: "string option"
  bodyUsed :: bool

definition BODY_USED :: string where
  "BODY_USED = ''Body has already been consumed.''"

definition consume_body :: "Response \<Rightarrow> js_error + string \<times> Response" where
  "consume_body r =
     (case body r of
        None \<Rightarrow> Inr ([], r)
      | Some bytes \<Rightarrow>
          if bodyUsed r then Inl (TypeError BODY_USED)
          else Inr (bytes, r\<lparr>bodyUsed := True\<rparr>))"

text \<open>
  What the program runs on: the base URL computed from \<^verbatim>\<open>window.location\<close>,
  \<^verbatim>\<open>JSON.parse\<close> (\<^term>\<open>None\<close>: it throws a \<^verbatim>\<open>SyntaxError\<close>), the conversion to a string that
  the \<^verbatim>\<open>Error\<close> constructor applies to a message that is not a string, and \<^verbatim>\<open>fetch\<close>,
  which rejects with \<^verbatim>\<open>TypeError('Failed to fetch')\<close> when the server cannot be reached.
\<close>

datatype Method = GET | POST | PUT | DELETE

record Request =
  endpoint :: string
  http_method :: Method

record Platform =
  BASE_URL :: string
  JSON_parse :: "string \<Rightarrow> json option"
  ToString :: "json \<Rightarrow> string"
  fetch :: "Request \<Rightarrow> js_error + Response"

definition JSON_SYNTAX :: string where
  "JSON_SYNTAX = ''Unexpected token in JSON''"

text \<open>\<^verbatim>\<open>response.text()\<close> and \<^verbatim>\<open>response.json()\<close>, with the response as they leave it.\<close>

definition response_text :: "Response \<Rightarrow> (js_error + string) \<times> Response" where
  "response_text r =
     (case consume_body r of
        Inl e \<Rightarrow> (Inl e, r)
      | Inr (bytes, r') \<Rightarrow> (Inr bytes, r'))"

definition response_json :: "Platform \<Rightarrow> Response \<Rightarrow> (js_error + json) \<times> Response" where
  "response_json pf r =
     (case consume_body r of
        Inl e \<Rightarrow> (Inl e, r)
      | Inr (bytes, r') \<Rightarrow>
          (case JSON_parse pf bytes of
             None \<Rightarrow> (Inl (SyntaxError JSON_SYNTAX), r')
           | Some v \<Rightarrow> (Inr v, r')))"

fun string_of_nat :: "nat \<Rightarrow> string" where
  "string_of_nat n =
     (if n < 10 then [char_of (48 + n)]
      else string_of_nat (n div 10) @ [char_of (48 + n mod 10)])"

text \<open>The message of \<^verbatim>\<open>new Error(v)\<close>.\<close>

fun message_of :: "Platform \<Rightarrow> json \<Rightarrow> string" where
  "message_of pf (JString s) = s"
| "message_of pf v = ToString pf v"

text \<open>
  The inner \<^verbatim>\<open>try\<close> of the branch \<^verbatim>\<open>!response.ok\<close>: the value of \<^verbatim>\<open>errorMessage\<close>, or what
  the block throws. Reading a property of \<^verbatim>\<open>null\<close> throws a \<^verbatim>\<open>TypeError\<close>.
\<close>

definition errorMessage_try :: "Platform \<Rightarrow> Response \<Rightarrow> (js_error + string) \<times> Response" where
  "errorMessage_try pf response =
     (case response_json pf response of
        (Inl e, response') \<Rightarrow> (Inl e, response')
      | (Inr errorData, response') \<Rightarrow>
          (if errorData = JNull then Inl (TypeError ''Cannot read properties of null'')
           else Inr (message_of pf
                  (js_or (property errorData ''message'')
                     (js_or (property errorData ''error'')
                        (JString ''An unknown server error occurred.'')))),
           response'))"

text \<open>
  The whole branch \<^verbatim>\<open>!response.ok\<close>: the error it throws. The \<^verbatim>\<open>catch (jsonError)\<close> block
  reads the same response again with \<^verbatim>\<open>text()\<close>, and what that call throws leaves the
  block.
\<close>

definition not_ok_error :: "Platform \<Rightarrow> Response \<Rightarrow> js_error" where
  "not_ok_error pf response =
     (case errorMessage_try pf response of
        (Inr errorMessage, response') \<Rightarrow> Error errorMessage
      | (Inl jsonError, response') \<Rightarrow>
          (case fst (response_text response') of
             Inl e \<Rightarrow> e
           | Inr textError \<Rightarrow>
               Error (if textError \<noteq> [] then textError
                      else ''HTTP Error: '' @ string_of_nat (http_status response'))))"

text \<open>The outer \<^verbatim>\<open>catch\<close>: a failed connection gets a new message, all else is re-thrown.\<close>

definition outer_catch :: "Platform \<Rightarrow> js_error \<Rightarrow> js_error" where
  "outer_catch pf error =
     (if error = TypeError ''Failed to fetch''
      then Error (''Could not connect to the backend server at '' @ BASE_URL pf
                  @ ''. Is your Java backend server running?'')
      else error)"

text \<open>
  \<^verbatim>\<open>apiFetch\<close>, given how \<^verbatim>\<open>fetch\<close> settled. The type parameter \<^verbatim>\<open>T\<close> is an unchecked cast:
  the value returned is the parsed JSON.
\<close>

definition apiFetch :: "Platform \<Rightarrow> js_error + Response \<Rightarrow> js_error + json" where
  "apiFetch pf fetched =
     (case (case fetched of
              Inl e \<Rightarrow> Inl e
            | Inr response \<Rightarrow>
                if \<not> ok response then Inl (not_ok_error pf response)
                else (case fst (response_text response) of
                        Inl e \<Rightarrow> Inl e
                      | Inr responseText \<Rightarrow>
                          if responseText \<noteq> []
                          then (case JSON_parse pf responseText of
                                  None \<Rightarrow> Inl (SyntaxError JSON_SYNTAX)
                                | Some v \<Rightarrow> Inr v)
                          else Inr (JObject []))) of
        Inl error \<Rightarrow> Inl (outer_catch pf error)
      | Inr v \<Rightarrow> Inr v)"

text \<open>
  An operation of the \<^verbatim>\<open>api\<close> object: the HTTP requests it issues, in order, and how its
  promise settles. Those that send no request body are modelled, each one call of
  \<^verbatim>\<open>apiFetch\<close>; \<^verbatim>\<open>markNotificationsAsRead\<close> calls nothing and resolves with its argument.
\<close>

definition api_request :: "Platform \<Rightarrow> Request \<Rightarrow> Request list \<times> (js_error + json)" where
  "api_request pf req = ([req], apiFetch pf (fetch pf req))"

definition api_getInitialData :: "Platform \<Rightarrow> Request list \<times> (js_error + json)" where
  "api_getInitialData pf = api_request pf \<lparr>endpoint = ''/data'', http_method = GET\<rparr>"

definition api_deleteItem :: "Platform \<Rightarrow> string \<Rightarrow> Request list \<times> (js_error + json)" where
  "api_deleteItem pf itemId =
     api_request pf \<lparr>endpoint = ''/items/'' @ itemId, http_method = DELETE\<rparr>"

definition api_deleteUser :: "Platform \<Rightarrow> string \<Rightarrow> Request list \<times> (js_error + json)" where
  "api_deleteUser pf userId =
     api_request pf \<lparr>endpoint = ''/users/'' @ userId, http_method = DELETE\<rparr>"

definition api_approveBorrowRequest ::
  "Platform \<Rightarrow> string \<Rightarrow> Request list \<times> (js_error + json)" where
  "api_approveBorrowRequest pf logId =
     api_request pf \<lparr>endpoint = ''/logs/'' @ logId @ ''/approve'', http_method = POST\<rparr>"

definition api_markNotificationsAsRead ::
  "string list \<Rightarrow> Request list \<times> (js_error + string list)" where
  "api_markNotificationsAsRead notificationIds = ([], Inr notificationIds)"

text \<open>The store's operation \<^verbatim>\<open>markNotificationsAsRead\<close>, with the API call it makes.\<close>

definition markNotificationsAsRead ::
  "nat \<Rightarrow> EmailService \<Rightarrow> string list \<Rightarrow> Store \<Rightarrow> Store list \<times> (js_error + unit)" where
  "markNotificationsAsRead now mail notificationIds st =
     mutate now mail
       (MarkNotificationsAsRead (snd (api_markNotificationsAsRead notificationIds))) st"

section \<open>The session guard (AuthContext.tsx)\<close>

text \<open>
  The string stored in \<^verbatim>\<open>sessionStorage\<close> under \<^verbatim>\<open>SESSION_STORAGE_KEY\<close>, by what
  \<^verbatim>\<open>JSON.parse\<close> makes of it: the empty string, a string that does not parse, the
  serialisation of a user object, or the serialisation of any other JSON value (which is
  falsy, or has no \<^verbatim>\<open>status\<close> equal to \<^verbatim>\<open>APPROVED\<close>). \<^verbatim>\<open>JSON.stringify\<close> followed by
  \<^verbatim>\<open>JSON.parse\<close> gives back a user object with the same properties.
\<close>

datatype SessionItem = EmptyString | NotJson | JsonOther | JsonUser User

record Auth =
  currentUser :: "User option"
  auth_isLoading :: bool
  sessionItem :: "SessionItem option"

definition logout :: "Auth \<Rightarrow> Auth" where
  "logout a = a\<lparr>currentUser := None, sessionItem := None\<rparr>"

text \<open>Effect 1, run once on mount.\<close>

definition restoreSession :: "Auth \<Rightarrow> Auth" where
  "restoreSession a =
     (case sessionItem a of
        None \<Rightarrow> a
      | Some EmptyString \<Rightarrow> a
      | Some NotJson \<Rightarrow> a\<lparr>sessionItem := None\<rparr>
      | Some JsonOther \<Rightarrow> a\<lparr>sessionItem := None\<rparr>
      | Some (JsonUser user) \<Rightarrow>
          if status user = APPROVED then a\<lparr>currentUser := Some user\<rparr>
          else a\<lparr>sessionItem := None\<rparr>)
     \<lparr>auth_isLoading := False\<rparr>"

text \<open>
  Effect 2, run when \<^verbatim>\<open>inventoryState.users\<close>, \<^verbatim>\<open>isInventoryLoading\<close> or \<^verbatim>\<open>currentUser\<close>
  changes. \<^verbatim>\<open>Array.prototype.find\<close> returns the first element that satisfies the
  test, as \<^const>\<open>List.find\<close> does.
\<close>

definition revalidate :: "bool \<Rightarrow> User list \<Rightarrow> Auth \<Rightarrow> Auth" where
  "revalidate isInventoryLoading inventoryUsers a =
     (case currentUser a of
        None \<Rightarrow> a
      | Some cu \<Rightarrow>
          if \<not> isInventoryLoading \<and> length inventoryUsers > 0 then
            (case List.find (\<lambda>u. user_id u = user_id cu) inventoryUsers of
               None \<Rightarrow> logout a
             | Some freshUser \<Rightarrow>
                 if status freshUser \<noteq> APPROVED then logout a
                 else (let secureUser = freshUser\<lparr>password := None\<rparr>
                       in a\<lparr>currentUser := Some secureUser,
                            sessionItem := Some (JsonUser secureUser)\<rparr>))
          else a)"

text \<open>The effect reads the store through \<^verbatim>\<open>useInventory()\<close>.\<close>

definition revalidate_effect :: "Store \<Rightarrow> Auth \<Rightarrow> Auth" where
  "revalidate_effect st a = revalidate (isLoading st) (users (state st)) a"

text \<open>\<^verbatim>\<open>login\<close>, given how \<^verbatim>\<open>api.login\<close> settled: the guard, and how the promise settles.\<close>

definition login :: "js_error + User \<Rightarrow> Auth \<Rightarrow> Auth \<times> (js_error + bool)" where
  "login r a =
     (case r of
        Inr user \<Rightarrow> (a\<lparr>currentUser := Some user, sessionItem := Some (JsonUser user)\<rparr>, Inr True)
      | Inl error \<Rightarrow> (a, Inl error))"

section \<open>Notions used to state the properties\<close>

text \<open>The error an operation's API call rejected with, if it did.\<close>

fun failure :: "js_error + 'a \<Rightarrow> js_error option" where
  "failure (Inl e) = Some e"
| "failure (Inr r) = None"

fun api_failure :: "Mutation \<Rightarrow> js_error option" where
  "api_failure (AddItem r) = failure r"
| "api_failure (EditItem r) = failure r"
| "api_failure (DeleteItem r) = failure r"
| "api_failure (CreateUser r) = failure r"
| "api_failure (EditUser r) = failure r"
| "api_failure (DeleteUser r) = failure r"
| "api_failure (ApproveUser r) = failure r"
| "api_failure (DenyUser r) = failure r"
| "api_failure (RequestBorrowItem r) = failure r"
| "api_failure (ApproveBorrowRequest r) = failure r"
| "api_failure (DenyBorrowRequest r) = failure r"
| "api_failure (ReturnItem r) = failure r"
| "api_failure (RequestItemReturn r) = failure r"
| "api_failure (MarkNotificationsAsRead r) = failure r"
| "api_failure (AddSuggestion r) = failure r"
| "api_failure (ApproveItemSuggestion r) = failure r"
| "api_failure (ApproveFeatureSuggestion r) = failure r"
| "api_failure (DenySuggestion r) = failure r"
| "api_failure (ImportItems r) = failure r"
| "api_failure (AddComment r) = failure r"

text \<open>The store an operation leaves behind: the last one observed.\<close>

definition outcome :: "nat \<Rightarrow> EmailService \<Rightarrow> Mutation \<Rightarrow> Store \<Rightarrow> Store" where
  "outcome now mail m st = last (st # fst (mutate now mail m st))"

text \<open>
  The newly created entities that a successful API result carries, by collection: the
  members the source names \<^verbatim>\<open>newItem\<close>, \<^verbatim>\<open>newItems\<close>, \<^verbatim>\<open>newUser\<close>, \<^verbatim>\<open>newLog\<close>,
  \<^verbatim>\<open>returnLog\<close>, \<^verbatim>\<open>newNotification\<close>, \<^verbatim>\<open>newSuggestion\<close> and \<^verbatim>\<open>newComment\<close>.
\<close>

fun created_items :: "Mutation \<Rightarrow> Item list" where
  "created_items (AddItem (Inr newItem)) = [newItem]"
| "created_items (ApproveItemSuggestion (Inr (updatedSuggestion, newItem))) = [newItem]"
| "created_items (ImportItems (Inr newItems)) = newItems"
| "created_items m = []"

fun created_users :: "Mutation \<Rightarrow> User list" where
  "created_users (CreateUser (Inr (newUser, newNotification))) = [newUser]"
| "created_users m = []"

fun created_logs :: "Mutation \<Rightarrow> LogEntry list" where
  "created_logs (RequestBorrowItem (Inr (newLog, newNotification))) = [newLog]"
| "created_logs (ReturnItem (Inr (returnLog, updatedBorrowLog, updatedItem))) = [returnLog]"
| "created_logs m = []"

fun created_notifications :: "Mutation \<Rightarrow> Notification list" where
  "created_notifications (CreateUser (Inr (newUser, newNotification))) = [newNotification]"
| "created_notifications (RequestBorrowItem (Inr (newLog, newNotification))) = [newNotification]"
| "created_notifications (RequestItemReturn (Inr (updatedLog, newNotification))) = [newNotification]"
| "created_notifications m = []"

fun created_suggestions :: "Mutation \<Rightarrow> Suggestion list" where
  "created_suggestions (AddSuggestion (Inr newSuggestion)) = [newSuggestion]"
| "created_suggestions m = []"

fun created_comments :: "Mutation \<Rightarrow> Comment list" where
  "created_comments (DenySuggestion (Inr (updatedSuggestion, newComment))) = [newComment]"
| "created_comments (AddComment (Inr newComment)) = [newComment]"
| "created_comments m = []"

text \<open>
  The identities a successful API result reports as deleted, by collection: only items
  and users can be deleted.
\<close>

fun removed_item_ids :: "Mutation \<Rightarrow> string list" where
  "removed_item_ids (DeleteItem (Inr deletedItemId)) = [deletedItemId]"
| "removed_item_ids m = []"

fun removed_user_ids :: "Mutation \<Rightarrow> string list" where
  "removed_user_ids (DeleteUser (Inr deletedUserId)) = [deletedUserId]"
| "removed_user_ids m = []"

text \<open>The credential held in the session entry, if the entry is a user that has one.\<close>

fun stored_credential :: "SessionItem option \<Rightarrow> string option" where
  "stored_credential (Some (JsonUser u)) = password u"
| "stored_credential x = None"

section \<open>Concrete inputs\<close>

definition example_user :: User where
  "example_user =
     \<lparr>user_id = ''u1'', fullName = ''Ana Cruz'', role = ''Student'', status = APPROVED,
      isAdmin = False, password = None\<rparr>"

definition example_admin :: User where
  "example_admin =
     \<lparr>user_id = ''u2'', fullName = ''Ben Reyes'', role = ''Admin'', status = APPROVED,
      isAdmin = True, password = Some ''s3cret''\<rparr>"

definition example_auth :: Auth where
  "example_auth =
     \<lparr>currentUser = Some example_user, auth_isLoading = False,
      sessionItem = Some (JsonUser example_user)\<rparr>"

definition example_item :: Item where
  "example_item =
     \<lparr>item_id = ''i1'', item_name = ''Beaker'', item_category = ''Glassware'',
      totalQuantity = 10, availableQuantity = 5\<rparr>"

definition example_log :: LogEntry where
  "example_log =
     \<lparr>log_id = ''l1'', log_itemId = ''i1'', log_userId = ''u1'', action = BORROW,
      quantity = 2, log_status = LOG_PENDING, adminNotes = None\<rparr>"

definition example_notification :: Notification where
  "example_notification =
     \<lparr>notification_id = ''n1'', notification_type = ''new_borrow_request'', read = False\<rparr>"

definition example_state :: State where
  "example_state =
     \<lparr>items = [example_item], users = [example_admin, example_user], logs = [example_log],
      notifications = [example_notification], suggestions = [], comments = []\<rparr>"

definition example_store :: Store where
  "example_store =
     \<lparr>state = example_state, isLoading = False, connectionError = None,
      syncStatus = Synced, lastSynced = None, renderError = None\<rparr>"

text \<open>A loaded store in which the user \<open>u1\<close> is no longer approved.\<close>

definition revoked_store :: Store where
  "revoked_store =
     example_store\<lparr>state := example_state\<lparr>users :=
        [example_admin, example_user\<lparr>status := DENIED\<rparr>]\<rparr>\<rparr>"

text \<open>A dispatch whose promise is rejected later, and one that throws to its caller.\<close>

definition rejecting_mail :: EmailService where
  "rejecting_mail =
     \<lparr>sendNewUserAdminNotification = (\<lambda>newUser admins. RejectedLater (Error ''mail service down'')),
      sendAccountApprovedNotification = (\<lambda>user. RejectedLater (Error ''mail service down'')),
      sendAccountDeniedNotification = (\<lambda>user. RejectedLater (Error ''mail service down''))\<rparr>"


text \<open>A platform whose \<^verbatim>\<open>JSON.parse\<close> accepts one text, the empty object.\<close>

definition example_platform :: Platform where
  "example_platform =
     \<lparr>BASE_URL = ''http://localhost:8080/api'',
      JSON_parse = (\<lambda>s. if s = ''{}'' then Some (JObject []) else None),
      ToString = (\<lambda>v. ''[object Object]''),
      fetch = (\<lambda>req. Inl (TypeError ''Failed to fetch''))\<rparr>"

definition plain_text_500 :: Response where
  "plain_text_500 =
     \<lparr>ok = False, http_status = 500, body = Some ''Internal Server Error'', bodyUsed = False\<rparr>"

section \<open>Facts about the store\<close>

lemma failure_Some: "failure r = Some e \<longleftrightarrow> r = Inl e"
  by (cases r) auto

lemma handleApiCall_rejected:
  "handleApiCall now (Inl e) f = ([SetSyncStatus Syncing, SetSyncStatus SyncError], Inl e)"
  by (simp add: handleApiCall_def)

lemma handleApiCall_set_state:
  "handleApiCall now (Inr r) (\<lambda>x. set_state (p x)) =
     ([SetSyncStatus Syncing, SetState (\<lambda>prev. Inr (p r prev)), SetSyncStatus Synced,
       SetLastSynced now], Inr ())"
  by (simp add: handleApiCall_def set_state_def)

lemma perform_rejected:
  "api_failure m = Some e \<Longrightarrow>
     perform now mail m = ([SetSyncStatus Syncing, SetSyncStatus SyncError], Inl e)"
  by (cases m) (simp_all add: failure_Some handleApiCall_rejected)

lemma filter_absent: "\<forall>x\<in>set xs. key x \<noteq> d \<Longrightarrow> filter (\<lambda>x. key x \<noteq> d) xs = xs"
  by (induction xs) auto

lemma count_list_filter:
  "count_list (filter P xs) x = (if P x then count_list xs x else 0)"
  by (induction xs) auto

lemma map_key_replace:
  "map (key \<circ> (\<lambda>x. if key x = key y then y else x)) xs = map key xs"
  by (induction xs) auto

lemma map_id_mark_read:
  "map (notification_id \<circ> (\<lambda>n. if P n then n\<lparr>read := True\<rparr> else n)) xs =
     map notification_id xs"
  by (induction xs) auto

lemmas patch_defs = addItem_patch_def editItem_patch_def deleteItem_patch_def
  createUser_updater_def editUser_patch_def deleteUser_patch_def requestBorrowItem_patch_def
  approveBorrowRequest_patch_def denyBorrowRequest_patch_def returnItem_patch_def
  requestItemReturn_patch_def markNotificationsAsRead_patch_def addSuggestion_patch_def
  approveItemSuggestion_patch_def approveFeatureSuggestion_patch_def denySuggestion_patch_def
  importItems_patch_def addComment_patch_def replaceItem_def replaceUser_def replaceLog_def
  replaceSuggestion_def

lemmas example_defs = example_user_def example_admin_def example_auth_def example_item_def
  example_log_def example_notification_def example_state_def example_store_def

section \<open>A failed API call\<close>

text \<open>
  Claim C3. Whatever the mutation operation, when its API call fails the snapshot is
  left exactly as it was: the stores observed differ from the store before in the sync
  status alone, which goes to syncing and then to error, and the operation's promise is
  rejected with the error of the API call.
\<close>

theorem mutation_failure_keeps_snapshot:
  assumes "api_failure m = Some e"
  shows "mutate now mail m st =
           ([st\<lparr>syncStatus := Syncing\<rparr>, st\<lparr>syncStatus := SyncError\<rparr>], Inl e)
         \<and> map state (fst (mutate now mail m st)) = [state st, state st]
         \<and> syncStatus (outcome now mail m st) = SyncError
         \<and> snd (mutate now mail m st) = Inl e"
  using perform_rejected [OF assms] by (simp add: mutate_def outcome_def)

text \<open>An approval that the server refuses, on the example store.\<close>

theorem mutation_failure_keeps_snapshot_witness:
  "api_failure (ApproveBorrowRequest (Inl (Error ''Insufficient stock'')))
     = Some (Error ''Insufficient stock'')
   \<and> map state (fst (mutate 1000 rejecting_mail
         (ApproveBorrowRequest (Inl (Error ''Insufficient stock''))) example_store))
       = [example_state, example_state]
   \<and> syncStatus (outcome 1000 rejecting_mail
         (ApproveBorrowRequest (Inl (Error ''Insufficient stock''))) example_store) = SyncError
   \<and> snd (mutate 1000 rejecting_mail
         (ApproveBorrowRequest (Inl (Error ''Insufficient stock''))) example_store)
       = Inl (Error ''Insufficient stock'')"
proof -
  have h: "api_failure (ApproveBorrowRequest (Inl (Error ''Insufficient stock'')))
             = Some (Error ''Insufficient stock'')"
    by simp
  show ?thesis
    using h mutation_failure_keeps_snapshot [OF h, of 1000 rejecting_mail example_store]
    by (simp add: example_store_def)
qed

section \<open>Returning an item\<close>

text \<open>
  Claim C4. For every snapshot and every successful return-item result, the snapshots
  observed are the old one (while syncing) and then one and the same new snapshot: no
  snapshot in between carries a part of the change. The new snapshot has the return log
  in front of the logs, in which every log with the identity of \<open>updatedBorrowLog\<close> is
  replaced by it; every item with the identity of \<open>updatedItem\<close> is replaced by it;
  users, notifications, suggestions and comments are those of the old snapshot.
\<close>

theorem returnItem_single_transition:
  "map state (fst (mutate now mail (ReturnItem (Inr (returnLog, updatedBorrowLog, updatedItem))) st)) =
     [state st,
      state (outcome now mail (ReturnItem (Inr (returnLog, updatedBorrowLog, updatedItem))) st),
      state (outcome now mail (ReturnItem (Inr (returnLog, updatedBorrowLog, updatedItem))) st),
      state (outcome now mail (ReturnItem (Inr (returnLog, updatedBorrowLog, updatedItem))) st)]
   \<and> snd (mutate now mail (ReturnItem (Inr (returnLog, updatedBorrowLog, updatedItem))) st) = Inr ()
   \<and> logs (state (outcome now mail (ReturnItem (Inr (returnLog, updatedBorrowLog, updatedItem))) st)) =
       returnLog # map (\<lambda>l. if log_id l = log_id updatedBorrowLog then updatedBorrowLog else l)
                     (logs (state st))
   \<and> items (state (outcome now mail (ReturnItem (Inr (returnLog, updatedBorrowLog, updatedItem))) st)) =
       map (\<lambda>i. if item_id i = item_id updatedItem then updatedItem else i) (items (state st))
   \<and> users (state (outcome now mail (ReturnItem (Inr (returnLog, updatedBorrowLog, updatedItem))) st))
       = users (state st)
   \<and> notifications (state (outcome now mail (ReturnItem (Inr (returnLog, updatedBorrowLog, updatedItem))) st))
       = notifications (state st)
   \<and> suggestions (state (outcome now mail (ReturnItem (Inr (returnLog, updatedBorrowLog, updatedItem))) st))
       = suggestions (state st)
   \<and> comments (state (outcome now mail (ReturnItem (Inr (returnLog, updatedBorrowLog, updatedItem))) st))
       = comments (state st)"
  by (simp add: outcome_def mutate_def handleApiCall_def set_state_def returnItem_patch_def
      replaceLog_def replaceItem_def)

section \<open>Deleting an item or a user\<close>

text \<open>
  Claim C6. For every snapshot and every identity: when no item (user) has the identity,
  the delete patch gives back the same snapshot; in every case what is left of the items
  (users) is a subsequence of the old collection in which an entity of that identity
  occurs no more and every other entity occurs as often as before, and the other
  collections are untouched. The operation does not fail: its promise is fulfilled and
  the sync status ends as synced.
\<close>

theorem delete_patch_by_identity:
  "((\<forall>i\<in>set (items s). item_id i \<noteq> d) \<longrightarrow> deleteItem_patch d s = s)
   \<and> subseq (items (deleteItem_patch d s)) (items s)
   \<and> (\<forall>i. count_list (items (deleteItem_patch d s)) i =
            (if item_id i = d then 0 else count_list (items s) i))
   \<and> deleteItem_patch d s = s\<lparr>items := items (deleteItem_patch d s)\<rparr>
   \<and> ((\<forall>u\<in>set (users s). user_id u \<noteq> d) \<longrightarrow> deleteUser_patch d s = s)
   \<and> subseq (users (deleteUser_patch d s)) (users s)
   \<and> (\<forall>u. count_list (users (deleteUser_patch d s)) u =
            (if user_id u = d then 0 else count_list (users s) u))
   \<and> deleteUser_patch d s = s\<lparr>users := users (deleteUser_patch d s)\<rparr>
   \<and> mutate now mail (DeleteItem (Inr d)) st =
        ([st\<lparr>syncStatus := Syncing\<rparr>,
          st\<lparr>syncStatus := Syncing, state := deleteItem_patch d (state st)\<rparr>,
          st\<lparr>syncStatus := Synced, state := deleteItem_patch d (state st)\<rparr>,
          st\<lparr>syncStatus := Synced, state := deleteItem_patch d (state st),
             lastSynced := Some now\<rparr>], Inr ())
   \<and> mutate now mail (DeleteUser (Inr d)) st =
        ([st\<lparr>syncStatus := Syncing\<rparr>,
          st\<lparr>syncStatus := Syncing, state := deleteUser_patch d (state st)\<rparr>,
          st\<lparr>syncStatus := Synced, state := deleteUser_patch d (state st)\<rparr>,
          st\<lparr>syncStatus := Synced, state := deleteUser_patch d (state st),
             lastSynced := Some now\<rparr>], Inr ())"
  by (simp add: deleteItem_patch_def deleteUser_patch_def filter_absent count_list_filter
      mutate_def handleApiCall_set_state)

text \<open>Deleting identities that the example snapshot lacks, and two that it has.\<close>

theorem delete_patch_by_identity_witness:
  "''i9'' \<notin> set (map item_id (items example_state))
   \<and> deleteItem_patch ''i9'' example_state = example_state
   \<and> ''u9'' \<notin> set (map user_id (users example_state))
   \<and> deleteUser_patch ''u9'' example_state = example_state
   \<and> items (deleteItem_patch ''i1'' example_state) = []
   \<and> users (deleteUser_patch ''u1'' example_state) = [example_admin]"
  using delete_patch_by_identity [of example_state "''i9''" 0 rejecting_mail example_store]
    delete_patch_by_identity [of example_state "''u9''" 0 rejecting_mail example_store]
  by (simp add: example_defs deleteItem_patch_def deleteUser_patch_def)

section \<open>Marking notifications as read\<close>

text \<open>
  Claim C8. For every list of notification identities, the API operation issues no HTTP
  request and is fulfilled with the list itself; the store's operation is fulfilled; the
  snapshots observed are the old one and then one new snapshot, in which every
  notification keeps its place and all its fields but \<open>read\<close>, which is true if it was
  true before or the notification's identity is in the list, and which differs from
  the old snapshot in the notifications alone.
\<close>

theorem markNotificationsAsRead_stub:
  "fst (api_markNotificationsAsRead notificationIds) = []
   \<and> snd (api_markNotificationsAsRead notificationIds) = Inr notificationIds
   \<and> snd (markNotificationsAsRead now mail notificationIds st) = Inr ()
   \<and> map state (fst (markNotificationsAsRead now mail notificationIds st)) =
       [state st,
        state (last (fst (markNotificationsAsRead now mail notificationIds st))),
        state (last (fst (markNotificationsAsRead now mail notificationIds st))),
        state (last (fst (markNotificationsAsRead now mail notificationIds st)))]
   \<and> notifications (state (last (fst (markNotificationsAsRead now mail notificationIds st)))) =
       map (\<lambda>n. n\<lparr>read := read n \<or> notification_id n \<in> set notificationIds\<rparr>)
         (notifications (state st))
   \<and> state (last (fst (markNotificationsAsRead now mail notificationIds st))) =
       (state st)\<lparr>notifications :=
          notifications (state (last (fst (markNotificationsAsRead now mail notificationIds st))))\<rparr>"
  by (simp add: markNotificationsAsRead_def api_markNotificationsAsRead_def mutate_def
      handleApiCall_set_state markNotificationsAsRead_patch_def)

text \<open>Every other operation of the API object that is modelled issues one request.\<close>

lemma api_operations_one_request:
  "length (fst (api_getInitialData pf)) = 1"
  "length (fst (api_deleteItem pf itemId)) = 1"
  "length (fst (api_deleteUser pf userId)) = 1"
  "length (fst (api_approveBorrowRequest pf logId)) = 1"
  by (simp_all add: api_getInitialData_def api_deleteItem_def api_deleteUser_def
      api_approveBorrowRequest_def api_request_def)

section \<open>Approving a borrow request\<close>

text \<open>
  The client's snapshot shows 5 beakers available, the pending log \<open>l1\<close> asks for 2, and
  the server, which has meanwhile lent one beaker through another client, answers the
  approval with an item of which 2 are available: the snapshot then shows 2, not
  \<open>5 - 2\<close>. Had the server answered \<open>-1\<close>, the snapshot would show \<open>-1\<close>.
\<close>

theorem approveBorrowRequest_quantity_counterexample:
  "log_id example_log = ''l1'' \<and> log_status example_log = LOG_PENDING
   \<and> quantity example_log = 2
   \<and> log_itemId example_log = item_id example_item
   \<and> map availableQuantity (items (state example_store)) = [5]
   \<and> snd (mutate 1000 rejecting_mail
        (ApproveBorrowRequest
           (Inr (example_log\<lparr>log_status := LOG_APPROVED\<rparr>,
                 example_item\<lparr>availableQuantity := 2\<rparr>)))
        example_store) = Inr ()
   \<and> map availableQuantity (items (state (outcome 1000 rejecting_mail
        (ApproveBorrowRequest
           (Inr (example_log\<lparr>log_status := LOG_APPROVED\<rparr>,
                 example_item\<lparr>availableQuantity := 2\<rparr>)))
        example_store))) = [2]
   \<and> (2::int) \<noteq> 5 - quantity example_log
   \<and> map availableQuantity (items (state (outcome 1000 rejecting_mail
        (ApproveBorrowRequest
           (Inr (example_log\<lparr>log_status := LOG_APPROVED\<rparr>,
                 example_item\<lparr>availableQuantity := - 1\<rparr>)))
        example_store))) = [- 1]"
  by (simp add: example_defs outcome_def mutate_def handleApiCall_def set_state_def
      approveBorrowRequest_patch_def replaceItem_def replaceLog_def)

text \<open>
  Claim C5, amended. For every snapshot and every successful approve-borrow round trip
  with result \<open>updatedLog\<close>, \<open>updatedItem\<close>: the operation is fulfilled, the items keep their
  number and their places, every item with the identity of \<open>updatedItem\<close> is replaced by
  \<open>updatedItem\<close> and every other item is unchanged; so the available quantity of the
  affected item in the resulting snapshot is the one the server returned. The client
  subtracts nothing and checks no sign.
\<close>

theorem approveBorrowRequest_stores_server_item:
  "snd (mutate now mail (ApproveBorrowRequest (Inr (updatedLog, updatedItem))) st) = Inr ()
   \<and> length (items (state (outcome now mail (ApproveBorrowRequest (Inr (updatedLog, updatedItem))) st)))
       = length (items (state st))
   \<and> (\<forall>k < length (items (state st)).
         items (state (outcome now mail (ApproveBorrowRequest (Inr (updatedLog, updatedItem))) st)) ! k =
           (if item_id (items (state st) ! k) = item_id updatedItem then updatedItem
            else items (state st) ! k))
   \<and> (\<forall>i \<in> set (items (state (outcome now mail
                      (ApproveBorrowRequest (Inr (updatedLog, updatedItem))) st))).
         item_id i = item_id updatedItem \<longrightarrow> availableQuantity i = availableQuantity updatedItem)"
  by (auto simp: outcome_def mutate_def handleApiCall_def set_state_def
      approveBorrowRequest_patch_def replaceItem_def replaceLog_def)

text \<open>The example store, the server answering with 3 beakers available.\<close>

theorem approveBorrowRequest_stores_server_item_witness:
  "0 < length (items (state example_store))
   \<and> item_id (items (state example_store) ! 0) = item_id (example_item\<lparr>availableQuantity := 3\<rparr>)
   \<and> items (state (outcome 1000 rejecting_mail
        (ApproveBorrowRequest
           (Inr (example_log\<lparr>log_status := LOG_APPROVED\<rparr>,
                 example_item\<lparr>availableQuantity := 3\<rparr>)))
        example_store)) ! 0 = example_item\<lparr>availableQuantity := 3\<rparr>"
  using approveBorrowRequest_stores_server_item
    [of 1000 rejecting_mail "example_log\<lparr>log_status := LOG_APPROVED\<rparr>"
        "example_item\<lparr>availableQuantity := 3\<rparr>" example_store]
  by (simp add: example_defs)

section \<open>The notification dispatch and the mutation\<close>




section \<open>Order and position\<close>

lemma map_key_filter:
  "map key (filter (\<lambda>x. key x \<noteq> d) xs) = filter (\<lambda>k. k \<noteq> d) (map key xs)"
  by (induction xs) auto

lemma items_shape:
  assumes "snd (mutate now mail m st) = Inr ()" "renderError st = None"
    "renderError (outcome now mail m st) = None"
  shows "\<exists>kept. items (state (outcome now mail m st)) = kept @ created_items m
            \<and> map item_id kept =
                filter (\<lambda>k. k \<notin> set (removed_item_ids m)) (map item_id (items (state st)))"
  using assms
  by (cases m)
    (auto simp: outcome_def mutate_def handleApiCall_def set_state_def patch_defs Let_def
       map_key_replace map_key_filter split: sum.splits option.splits prod.splits)

lemma users_shape:
  assumes "snd (mutate now mail m st) = Inr ()" "renderError st = None"
    "renderError (outcome now mail m st) = None"
  shows "\<exists>kept. users (state (outcome now mail m st)) = kept @ created_users m
            \<and> map user_id kept =
                filter (\<lambda>k. k \<notin> set (removed_user_ids m)) (map user_id (users (state st)))"
  using assms
  by (cases m)
    (auto simp: outcome_def mutate_def handleApiCall_def set_state_def patch_defs Let_def
       map_key_replace map_key_filter split: sum.splits option.splits prod.splits)

lemma logs_shape:
  assumes "snd (mutate now mail m st) = Inr ()" "renderError st = None"
    "renderError (outcome now mail m st) = None"
  shows "\<exists>kept. logs (state (outcome now mail m st)) = created_logs m @ kept
            \<and> map log_id kept = map log_id (logs (state st))"
  using assms
  by (cases m)
    (auto simp: outcome_def mutate_def handleApiCall_def set_state_def patch_defs Let_def
       map_key_replace split: sum.splits option.splits prod.splits)

lemma notifications_shape:
  assumes "snd (mutate now mail m st) = Inr ()" "renderError st = None"
    "renderError (outcome now mail m st) = None"
  shows "\<exists>kept. notifications (state (outcome now mail m st)) = created_notifications m @ kept
            \<and> map notification_id kept = map notification_id (notifications (state st))"
  using assms
  by (cases m)
    (auto simp: outcome_def mutate_def handleApiCall_def set_state_def patch_defs Let_def
       map_id_mark_read split: sum.splits option.splits prod.splits)

lemma suggestions_shape:
  assumes "snd (mutate now mail m st) = Inr ()" "renderError st = None"
    "renderError (outcome now mail m st) = None"
  shows "\<exists>kept. suggestions (state (outcome now mail m st)) = created_suggestions m @ kept
            \<and> map suggestion_id kept = map suggestion_id (suggestions (state st))"
  using assms
  by (cases m)
    (auto simp: outcome_def mutate_def handleApiCall_def set_state_def patch_defs Let_def
       map_key_replace split: sum.splits option.splits prod.splits)

lemma comments_shape:
  assumes "snd (mutate now mail m st) = Inr ()" "renderError st = None"
    "renderError (outcome now mail m st) = None"
  shows "\<exists>kept. comments (state (outcome now mail m st)) = created_comments m @ kept
            \<and> map comment_id kept = map comment_id (comments (state st))"
  using assms
  by (cases m)
    (auto simp: outcome_def mutate_def handleApiCall_def set_state_def patch_defs Let_def
       split: sum.splits option.splits prod.splits)

text \<open>
  Claim C10. After every mutation that succeeds (its promise is fulfilled and no updater
  threw), each collection of the snapshot is the entities the result newly created,
  next to a list \<open>kept\<close> that holds the pre-existing entries: the identities of \<open>kept\<close>
  are, one by one and in the same order, the identities the collection held before,
  all of them, but for the identity that a delete of an item or a user removed. The new
  logs, notifications, suggestions and comments stand in front of \<open>kept\<close>, the new items
  and users behind it.
\<close>

theorem patch_keeps_order:
  assumes "snd (mutate now mail m st) = Inr ()"
    and "renderError st = None"
    and "renderError (outcome now mail m st) = None"
  shows "(\<exists>kept. items (state (outcome now mail m st)) = kept @ created_items m
            \<and> map item_id kept =
                filter (\<lambda>k. k \<notin> set (removed_item_ids m)) (map item_id (items (state st))))
       \<and> (\<exists>kept. users (state (outcome now mail m st)) = kept @ created_users m
            \<and> map user_id kept =
                filter (\<lambda>k. k \<notin> set (removed_user_ids m)) (map user_id (users (state st))))
       \<and> (\<exists>kept. logs (state (outcome now mail m st)) = created_logs m @ kept
            \<and> map log_id kept = map log_id (logs (state st)))
       \<and> (\<exists>kept. notifications (state (outcome now mail m st)) = created_notifications m @ kept
            \<and> map notification_id kept = map notification_id (notifications (state st)))
       \<and> (\<exists>kept. suggestions (state (outcome now mail m st)) = created_suggestions m @ kept
            \<and> map suggestion_id kept = map suggestion_id (suggestions (state st)))
       \<and> (\<exists>kept. comments (state (outcome now mail m st)) = created_comments m @ kept
            \<and> map comment_id kept = map comment_id (comments (state st)))"
  using items_shape [OF assms] users_shape [OF assms] logs_shape [OF assms]
    notifications_shape [OF assms] suggestions_shape [OF assms] comments_shape [OF assms]
  by blast

text \<open>
  Returning the borrowed beakers on the example store: the return log comes first, the
  borrow log \<open>l1\<close> and the two users keep their places.
\<close>

theorem patch_keeps_order_witness:
  "snd (mutate 1000 rejecting_mail
          (ReturnItem (Inr (example_log\<lparr>log_id := ''l2'', action := RETURN,
                                        log_status := LOG_RETURNED\<rparr>,
                            example_log\<lparr>log_status := LOG_RETURNED\<rparr>,
                            example_item\<lparr>availableQuantity := 7\<rparr>))) example_store) = Inr ()
   \<and> renderError example_store = None
   \<and> renderError (outcome 1000 rejecting_mail
          (ReturnItem (Inr (example_log\<lparr>log_id := ''l2'', action := RETURN,
                                        log_status := LOG_RETURNED\<rparr>,
                            example_log\<lparr>log_status := LOG_RETURNED\<rparr>,
                            example_item\<lparr>availableQuantity := 7\<rparr>))) example_store) = None
   \<and> (\<exists>kept. logs (state (outcome 1000 rejecting_mail
          (ReturnItem (Inr (example_log\<lparr>log_id := ''l2'', action := RETURN,
                                        log_status := LOG_RETURNED\<rparr>,
                            example_log\<lparr>log_status := LOG_RETURNED\<rparr>,
                            example_item\<lparr>availableQuantity := 7\<rparr>))) example_store))
         = [example_log\<lparr>log_id := ''l2'', action := RETURN, log_status := LOG_RETURNED\<rparr>] @ kept
         \<and> map log_id kept = [''l1''])
   \<and> (\<exists>kept. users (state (outcome 1000 rejecting_mail
          (ReturnItem (Inr (example_log\<lparr>log_id := ''l2'', action := RETURN,
                                        log_status := LOG_RETURNED\<rparr>,
                            example_log\<lparr>log_status := LOG_RETURNED\<rparr>,
                            example_item\<lparr>availableQuantity := 7\<rparr>))) example_store))
         = kept @ [] \<and> map user_id kept = [''u2'', ''u1''])"
proof -
  let ?m = "ReturnItem (Inr (example_log\<lparr>log_id := ''l2'', action := RETURN,
                                         log_status := LOG_RETURNED\<rparr>,
                             example_log\<lparr>log_status := LOG_RETURNED\<rparr>,
                             example_item\<lparr>availableQuantity := 7\<rparr>))"
  have h1: "snd (mutate 1000 rejecting_mail ?m example_store) = Inr ()"
    by (simp add: mutate_def handleApiCall_def set_state_def)
  have h2: "renderError example_store = None"
    by (simp add: example_store_def)
  have h3: "renderError (outcome 1000 rejecting_mail ?m example_store) = None"
    by (simp add: outcome_def mutate_def handleApiCall_def set_state_def example_store_def)
  have l: "map log_id (logs (state example_store)) = [''l1'']"
    by (simp add: example_store_def example_state_def example_log_def)
  have u: "map user_id (users (state example_store)) = [''u2'', ''u1'']"
    by (simp add: example_store_def example_state_def example_user_def example_admin_def)
  from patch_keeps_order [OF h1 h2 h3] h1 h2 h3 l u show ?thesis
    by simp
qed

section \<open>Re-validation of the session\<close>

text \<open>
  The lookup of the effect is \<^verbatim>\<open>find\<close>: when the entry it finds for the held identity is
  missing or not approved, the effect is a logout.
\<close>

lemma revalidate_lookup_logout:
  assumes "currentUser a = Some cu"
    and "\<not> isLoading st"
    and "users (state st) \<noteq> []"
    and "List.find (\<lambda>u. user_id u = user_id cu) (users (state st)) = None
         \<or> (\<exists>freshUser. List.find (\<lambda>u. user_id u = user_id cu) (users (state st)) = Some freshUser
               \<and> status freshUser \<noteq> APPROVED)"
  shows "revalidate_effect st a = logout a"
  using assms by (auto simp: revalidate_effect_def revalidate_def Let_def)

text \<open>In a collection with unique identities the lookup finds the user of an identity.\<close>

lemma find_unique_identity:
  assumes "distinct (map user_id us)" and "u \<in> set us"
  shows "List.find (\<lambda>v. user_id v = user_id u) us = Some u"
  using assms
proof (induction us)
  case Nil
  then show ?case by simp
next
  case (Cons w ws)
  show ?case
  proof (cases "w = u")
    case True
    then show ?thesis by simp
  next
    case False
    with Cons.prems have "u \<in> set ws" and "user_id w \<noteq> user_id u"
      by auto
    with Cons show ?thesis by simp
  qed
qed

text \<open>
  Claim C1. For every authenticated session: once the application state has finished
  loading and the loaded user collection is non-empty, if the guard holds a user and
  that collection, in which every identity occurs once, either contains no user with
  the held user's identity or contains one whose status is not \<open>APPROVED\<close>, then the
  guard becomes anonymous and the persisted session entry is cleared.
\<close>

theorem revalidate_forces_logout:
  assumes "currentUser a = Some cu"
    and "\<not> isLoading st"
    and "users (state st) \<noteq> []"
    and "distinct (map user_id (users (state st)))"
    and "(\<forall>u\<in>set (users (state st)). user_id u \<noteq> user_id cu)
         \<or> (\<exists>u\<in>set (users (state st)). user_id u = user_id cu \<and> status u \<noteq> APPROVED)"
  shows "revalidate_effect st a = logout a
       \<and> currentUser (revalidate_effect st a) = None
       \<and> sessionItem (revalidate_effect st a) = None"
proof -
  from assms(5)
  have "List.find (\<lambda>u. user_id u = user_id cu) (users (state st)) = None
         \<or> (\<exists>freshUser. List.find (\<lambda>u. user_id u = user_id cu) (users (state st)) = Some freshUser
               \<and> status freshUser \<noteq> APPROVED)"
  proof
    assume "\<forall>u\<in>set (users (state st)). user_id u \<noteq> user_id cu"
    then show ?thesis by (simp add: find_None_iff)
  next
    assume "\<exists>u\<in>set (users (state st)). user_id u = user_id cu \<and> status u \<noteq> APPROVED"
    then obtain u where u: "u \<in> set (users (state st))" "user_id u = user_id cu"
      "status u \<noteq> APPROVED"
      by blast
    from find_unique_identity [OF assms(4) u(1)] u(2)
    have "List.find (\<lambda>v. user_id v = user_id cu) (users (state st)) = Some u"
      by simp
    with u(3) show ?thesis by blast
  qed
  from revalidate_lookup_logout [OF assms(1-3) this]
  show ?thesis by (simp add: logout_def)
qed

text \<open>The held user \<open>u1\<close> against a loaded store in which \<open>u1\<close> has been denied.\<close>

theorem revalidate_forces_logout_witness:
  "currentUser example_auth = Some example_user
   \<and> \<not> isLoading revoked_store
   \<and> users (state revoked_store) \<noteq> []
   \<and> distinct (map user_id (users (state revoked_store)))
   \<and> example_user\<lparr>status := DENIED\<rparr> \<in> set (users (state revoked_store))
   \<and> user_id (example_user\<lparr>status := DENIED\<rparr>) = user_id example_user
   \<and> status (example_user\<lparr>status := DENIED\<rparr>) \<noteq> APPROVED
   \<and> currentUser (revalidate_effect revoked_store example_auth) = None
   \<and> sessionItem (revalidate_effect revoked_store example_auth) = None"
proof -
  have h1: "currentUser example_auth = Some example_user"
    by (simp add: example_auth_def)
  have h2: "\<not> isLoading revoked_store"
    by (simp add: revoked_store_def example_store_def)
  have us: "users (state revoked_store) = [example_admin, example_user\<lparr>status := DENIED\<rparr>]"
    by (simp add: revoked_store_def example_store_def)
  then have h3: "users (state revoked_store) \<noteq> []"
    by simp
  have h4: "distinct (map user_id (users (state revoked_store)))"
    by (simp add: us example_user_def example_admin_def)
  have m: "example_user\<lparr>status := DENIED\<rparr> \<in> set (users (state revoked_store))"
    by (simp add: us)
  have i: "user_id (example_user\<lparr>status := DENIED\<rparr>) = user_id example_user"
    by simp
  have n: "status (example_user\<lparr>status := DENIED\<rparr>) \<noteq> APPROVED"
    by simp
  from m i n
  have h5: "(\<forall>u\<in>set (users (state revoked_store)). user_id u \<noteq> user_id example_user)
         \<or> (\<exists>u\<in>set (users (state revoked_store)).
               user_id u = user_id example_user \<and> status u \<noteq> APPROVED)"
    by blast
  from revalidate_forces_logout [OF h1 h2 h3 h4 h5] h1 h2 h3 h4 m i n show ?thesis
    by blast
qed

section \<open>What the guard writes to session storage\<close>

text \<open>
  What each operation of the guard does to the session entry: logout clears it; the
  startup restore leaves it as it is or clears it; the re-validation leaves it as it
  is, clears it, or writes a user without the credential field, whatever the loaded
  collection holds; a failed login leaves it as it is; a successful login writes the
  user value the server returned, as it is.
\<close>

lemma session_entry_writes:
  "sessionItem (logout a) = None
   \<and> (sessionItem (restoreSession a) = sessionItem a \<or> sessionItem (restoreSession a) = None)
   \<and> (sessionItem (revalidate isInventoryLoading inventoryUsers a) = sessionItem a
       \<or> stored_credential (sessionItem (revalidate isInventoryLoading inventoryUsers a)) = None)
   \<and> sessionItem (fst (login (Inl error) a)) = sessionItem a
   \<and> sessionItem (fst (login (Inr user) a)) = Some (JsonUser user)
   \<and> stored_credential (sessionItem (fst (login (Inr user) a))) = password user"
  by (simp add: logout_def restoreSession_def revalidate_def login_def Let_def
      split: option.splits SessionItem.splits)

text \<open>
  Claim C2. The claim: over every operation of the session guard (startup restore,
  login, re-validation, logout), the user value written to session storage never
  contains the credential field, for every user value the server may return.
  The code at a login that the server answers with a user object that has the property
  \<open>password\<close> (the declared result of \<^verbatim>\<open>api.login\<close> is \<^verbatim>\<open>User\<close>, the type with that
  property): the login succeeds and the session entry is that object, credential
  included. The re-validation branch removes the property before it writes; \<^verbatim>\<open>login\<close>
  does not.
\<close>

theorem login_persists_credential:
  "password example_admin = Some ''s3cret''
   \<and> snd (login (Inr example_admin) (logout example_auth)) = Inr True
   \<and> sessionItem (fst (login (Inr example_admin) (logout example_auth)))
       = Some (JsonUser example_admin)
   \<and> stored_credential (sessionItem (fst (login (Inr example_admin) (logout example_auth))))
       = Some ''s3cret''"
  by (simp add: login_def logout_def example_admin_def)

section \<open>The error of a response that is not ok\<close>

lemma apiFetch_json_message:
  assumes "\<not> ok response" "body response = Some bytes" "\<not> bodyUsed response"
    and "JSON_parse pf bytes = Some (JObject members)"
    and "map_of (rev members) ''message'' = Some (JString msg)" "msg \<noteq> []"
  shows "apiFetch pf (Inr response) = Inl (Error msg)"
  using assms
  by (simp add: apiFetch_def not_ok_error_def errorMessage_try_def response_json_def
      consume_body_def outer_catch_def)

lemma apiFetch_null_body:
  assumes "\<not> ok response" "body response = None" "JSON_parse pf [] = None"
  shows "apiFetch pf (Inr response) =
           Inl (Error (''HTTP Error: '' @ string_of_nat (http_status response)))"
  using assms
  by (simp add: apiFetch_def not_ok_error_def errorMessage_try_def response_json_def
      response_text_def consume_body_def outer_catch_def del: string_of_nat.simps)

lemma apiFetch_unparseable_body:
  assumes "\<not> ok response" "body response = Some bytes" "\<not> bodyUsed response"
    and "JSON_parse pf bytes = None"
  shows "apiFetch pf (Inr response) = Inl (TypeError BODY_USED)"
  using assms
  by (simp add: apiFetch_def not_ok_error_def errorMessage_try_def response_json_def
      response_text_def consume_body_def outer_catch_def BODY_USED_def)

text \<open>
  Claim C7. The claim: for every HTTP response with a non-success status the client
  fails with the message of the JSON error body, or with the raw response text when the
  body is not parseable JSON, or else with a generic message that contains the status.
  The code at a response with status 500 and the body \<open>Internal Server Error\<close>, which is
  not JSON: \<^verbatim>\<open>response.json()\<close> fails after reading the body, \<^verbatim>\<open>response.text()\<close> in the
  \<^verbatim>\<open>catch\<close> block finds the body read and throws a \<^verbatim>\<open>TypeError\<close>, and \<^verbatim>\<open>apiFetch\<close> fails
  with that \<^verbatim>\<open>TypeError\<close>: neither with the raw text nor with the message of the status.
\<close>

theorem apiFetch_text_fallback_body_used:
  "\<not> ok plain_text_500
   \<and> body plain_text_500 = Some ''Internal Server Error''
   \<and> JSON_parse example_platform ''Internal Server Error'' = None
   \<and> apiFetch example_platform (Inr plain_text_500) = Inl (TypeError BODY_USED)
   \<and> apiFetch example_platform (Inr plain_text_500) \<noteq> Inl (Error ''Internal Server Error'')
   \<and> apiFetch example_platform (Inr plain_text_500) \<noteq> Inl (Error ''HTTP Error: 500'')"
  by (simp add: apiFetch_def not_ok_error_def errorMessage_try_def response_json_def
      response_text_def consume_body_def outer_catch_def example_platform_def plain_text_500_def
      BODY_USED_def)

end
